theory Spec2Isabelle
  imports Main
begin

section \<open>Shared datatypes of the assistant: the structured input and its string lists\<close>

text \<open>
  The development follows \<^verbatim>\<open>ava/shared/datatypes/datatypes.go\<close>. Go strings are byte
  sequences, modelled as \<^typ>\<open>string\<close>; a Go \<^verbatim>\<open>int\<close> is modelled as \<^typ>\<open>int\<close>
  (no arithmetic that could overflow is done on it). The struct fields of type
  \<^verbatim>\<open>StringSlice\<close> are modelled by the list of their elements: a nil slice and an empty
  slice both have length 0 and are the empty list.
\<close>

subsection \<open>Characters that cannot be written in a literal\<close>

abbreviation bslash :: char where "bslash \<equiv> CHR 0x5C"
abbreviation dquote :: char where "dquote \<equiv> CHR 0x22"
abbreviation newline :: char where "newline \<equiv> CHR 0x0A"
abbreviation creturn :: char where "creturn \<equiv> CHR 0x0D"

subsection \<open>Constants and tables\<close>

datatype error = ErrInvalidClass | ErrInvalidOddParameter

definition CommandI :: int where "CommandI = 1"
definition ActorI :: int where "ActorI = 2"
definition ObjectI :: int where "ObjectI = 3"
definition TimeI :: int where "TimeI = 4"
definition PlaceI :: int where "PlaceI = 5"
definition NoneI :: int where "NoneI = 6"

text \<open>
  The table \<^verbatim>\<open>Pronouns\<close> is a Go map from string to int. Reading a key that is absent
  gives the zero value 0, which \<open>Pronouns_lookup\<close> writes out.
\<close>

definition Pronouns :: "(string \<times> int) list" where
  "Pronouns =
     [(''me'', ActorI), (''us'', ActorI), (''you'', ActorI), (''him'', ActorI),
      (''her'', ActorI), (''them'', ActorI), (''it'', ObjectI), (''that'', ObjectI),
      (''there'', PlaceI), (''then'', TimeI)]"

definition Pronouns_lookup :: "string \<Rightarrow> int" where
  "Pronouns_lookup w = (case map_of Pronouns w of None \<Rightarrow> 0 | Some c \<Rightarrow> c)"

subsection \<open>The records\<close>

record StructuredInput =
  UserId :: int
  FlexId :: string
  FlexIdType :: int
  Sentence :: string
  Commands :: "string list"
  Actors :: "string list"
  Objects :: "string list"
  Times :: "string list"
  Places :: "string list"

record WordClass =
  Word :: string
  Class :: int

text \<open>
  A slice value as a function returns it: \<open>NilSlice\<close> is Go's \<^verbatim>\<open>nil\<close>, and
  \<open>Slice xs\<close> is a non-nil slice with the elements \<open>xs\<close> (possibly none).
\<close>

datatype 'a slice = NilSlice | Slice "'a list"

fun elems :: "'a slice \<Rightarrow> 'a list" where
  "elems NilSlice = []"
| "elems (Slice xs) = xs"

text \<open>\<^verbatim>\<open>append(p, w)\<close>: the result is never nil.\<close>

fun append_slice :: "'a slice \<Rightarrow> 'a \<Rightarrow> 'a slice" where
  "append_slice p w = Slice (elems p @ [w])"

subsection \<open>Run-time panics, slice and index expressions\<close>

text \<open>
  A Go function either returns or panics at run time (an index or a slice bound out of
  range). \<open>Panics\<close> is that outcome; nothing in the source recovers from it.
\<close>

datatype 'a outcome = Returns 'a | Panics

text \<open>\<^verbatim>\<open>s[lo:hi]\<close> on a string: Go panics unless \<open>0 \<le> lo \<le> hi \<le> len(s)\<close>.\<close>

definition go_slice :: "string \<Rightarrow> int \<Rightarrow> int \<Rightarrow> string outcome" where
  "go_slice s lo hi =
     (if 0 \<le> lo \<and> lo \<le> hi \<and> hi \<le> int (length s)
      then Returns (take (nat (hi - lo)) (drop (nat lo) s)) else Panics)"

text \<open>\<^verbatim>\<open>s[i]\<close>: Go panics unless \<open>0 \<le> i < len(s)\<close>.\<close>

definition go_index :: "'a list \<Rightarrow> int \<Rightarrow> 'a outcome" where
  "go_index s i = (if 0 \<le> i \<and> i < int (length s) then Returns (s ! nat i) else Panics)"

subsection \<open>The string functions of the standard library\<close>

text \<open>\<^verbatim>\<open>strings.Join(elems, sep)\<close>.\<close>

fun strings_Join :: "string list \<Rightarrow> string \<Rightarrow> string" where
  "strings_Join [] sep = []"
| "strings_Join [x] sep = x"
| "strings_Join (x # y # xs) sep = x @ sep @ strings_Join (y # xs) sep"

text \<open>
  \<^verbatim>\<open>strings.Replace(s, old, new, -1)\<close>: every non-overlapping occurrence of \<open>old\<close>,
  found from the left, is replaced. All three calls of the source pass a non-empty
  \<open>old\<close>; for the empty pattern (where Go inserts \<open>new\<close> around every rune) the model
  says nothing.
\<close>

function strings_Replace :: "string \<Rightarrow> string \<Rightarrow> string \<Rightarrow> string" where
  "strings_Replace s old new =
     (if old = [] then undefined
      else if s = [] then []
      else if take (length old) s = old
        then new @ strings_Replace (drop (length old) s) old new
      else hd s # strings_Replace (tl s) old new)"
  by pat_completeness auto
termination
  by (relation "measure (\<lambda>(s, old, new). length s)") auto

declare strings_Replace.simps [simp del]

subsection \<open>The regular expression \<^verbatim>\<open>quoteEscapeRegex\<close>\<close>

text \<open>
  The pattern is \<^verbatim>\<open>([^\\]([\\]{2})*)\\"\<close>: one character other than a backslash, then
  pairs of backslashes (as many as possible, giving pairs back when the rest does not
  match), then a backslash and a double quote. The characters the pattern names are
  ASCII, and no byte of a multi-byte UTF-8 sequence is ASCII, so matching bytes and
  matching runes replace the same text.

  \<open>quoteEscape_rest s\<close> matches \<^verbatim>\<open>([\\]{2})*\\"\<close> at the start of \<open>s\<close>: it returns the
  backslash pairs it matched and the text after the match.
\<close>

fun quoteEscape_rest :: "string \<Rightarrow> (string \<times> string) option" where
  "quoteEscape_rest (a # b # s) =
     (if a = bslash \<and> b = bslash then
        (case quoteEscape_rest s of
           Some (g, r) \<Rightarrow> Some (a # b # g, r)
         | None \<Rightarrow> None)
      else if a = bslash \<and> b = dquote then Some ([], s)
      else None)"
| "quoteEscape_rest s = None"

lemma quoteEscape_rest_length:
  "quoteEscape_rest s = Some (g, r) \<Longrightarrow> length r < length s"
proof (induction s arbitrary: g r rule: quoteEscape_rest.induct)
  case (1 a b s)
  then show ?case
    by (fastforce split: if_splits option.splits)
qed simp_all

text \<open>
  \<^verbatim>\<open>quoteEscapeRegex.ReplaceAllString(str, `$1""`)\<close>: the leftmost match is replaced by
  its first group (the character and the pairs) followed by two double quotes, and the
  search goes on after the match.
\<close>

function quoteEscape_ReplaceAll :: "string \<Rightarrow> string" where
  "quoteEscape_ReplaceAll [] = []"
| "quoteEscape_ReplaceAll (c # s) =
     (if c \<noteq> bslash then
        (case quoteEscape_rest s of
           Some (g, r) \<Rightarrow> c # g @ [dquote, dquote] @ quoteEscape_ReplaceAll r
         | None \<Rightarrow> c # quoteEscape_ReplaceAll s)
      else c # quoteEscape_ReplaceAll s)"
  by pat_completeness auto
termination
  by (relation "measure length") (auto dest: quoteEscape_rest_length)

subsection \<open>The reader of \<^verbatim>\<open>encoding/csv\<close>\<close>

text \<open>
  \<^verbatim>\<open>csv.NewReader(strings.NewReader(str))\<close> with its default settings: the comma is
  \<open>,\<close>, no comment character, no lazy quotes, no trimming of leading space, and no
  fixed number of fields. The source calls \<^verbatim>\<open>Read\<close> once. The positions that a
  \<^verbatim>\<open>ParseError\<close> carries are left out; its kind is kept.
\<close>

datatype csv_error = EOF | ErrBareQuote | ErrQuote

fun IndexByte :: "string \<Rightarrow> char \<Rightarrow> nat option" where
  "IndexByte [] c = None"
| "IndexByte (x # xs) c =
     (if x = c then Some 0 else (case IndexByte xs c of None \<Rightarrow> None | Some i \<Rightarrow> Some (Suc i)))"

lemma IndexByte_less: "IndexByte s c = Some i \<Longrightarrow> i < length s"
  by (induction s arbitrary: i) (auto split: if_splits option.splits)

text \<open>
  \<^verbatim>\<open>ReadSlice('\n')\<close> on the input that is left: the bytes up to and with the first
  newline, the input after them, and whether the end of the input came first
  (\<^verbatim>\<open>io.EOF\<close>).
\<close>

fun ReadSlice :: "string \<Rightarrow> string \<times> string \<times> bool" where
  "ReadSlice [] = ([], [], True)"
| "ReadSlice (c # s) =
     (if c = newline then ([c], s, False)
      else (case ReadSlice s of (line, rest, eof) \<Rightarrow> (c # line, rest, eof)))"

text \<open>
  \<^verbatim>\<open>readLine\<close>: a last line without a newline is no error and loses a trailing carriage
  return; a line that ends in carriage return and newline ends in a newline only.
\<close>

definition readLine :: "string \<Rightarrow> string \<times> string \<times> bool" where
  "readLine input =
     (case ReadSlice input of (line, rest, eof) \<Rightarrow>
        let readSize = length line;
            drop_cr = (readSize > 0 \<and> eof);
            line = (if drop_cr \<and> last line = creturn then butlast line else line);
            eof = (if drop_cr then False else eof);
            n = length line;
            line = (if n \<ge> 2 \<and> line ! (n - 2) = creturn \<and> line ! (n - 1) = newline
                    then take (n - 2) line @ [newline] else line)
        in (line, rest, eof))"

definition lengthNL :: "string \<Rightarrow> nat" where
  "lengthNL b = (if length b > 0 \<and> b ! (length b - 1) = newline then 1 else 0)"

lemma ReadSlice_length:
  "ReadSlice input = (line, rest, eof) \<Longrightarrow> length line + length rest = length input"
  by (induction input arbitrary: line rest eof) (auto split: if_splits prod.splits)

lemma readLine_length:
  "readLine input = (line, rest, eof) \<Longrightarrow> length line + length rest \<le> length input"
  by (auto simp: readLine_def Let_def split: prod.splits if_splits dest!: ReadSlice_length)

lemma readLine_next_line:
  assumes "(line', rest', eof) = readLine rest" and "line \<noteq> []"
  shows "length line' + length rest' < length line + length rest"
proof -
  have "length line' + length rest' \<le> length rest"
    using assms(1) by (intro readLine_length [OF sym])
  moreover have "0 < length line"
    using assms(2) by simp
  ultimately show ?thesis by linarith
qed

lemma readLine_progress:
  assumes "readLine input = (line, rest, False)"
  shows "length rest < length input"
proof -
  obtain l r e where rs: "ReadSlice input = (l, r, e)"
    by (cases "ReadSlice input") auto
  from assms rs have "rest = r" and "\<not> e \<or> length l > 0"
    by (auto simp: readLine_def Let_def split: if_splits)
  moreover from rs this(2) have "l \<noteq> []"
    by (cases input) (auto split: if_splits prod.splits)
  ultimately show ?thesis
    using ReadSlice_length [OF rs] by (cases l) auto
qed

text \<open>
  The first loop of \<^verbatim>\<open>readRecord\<close> reads lines until one is not empty. \<open>None\<close> is the
  return of \<^verbatim>\<open>io.EOF\<close> with no record; otherwise the line and the input after it.
\<close>

function skip_empty_lines :: "string \<Rightarrow> (string \<times> string) option" where
  "skip_empty_lines input =
     (case readLine input of (line, rest, eof) \<Rightarrow>
        if \<not> eof \<and> length line = lengthNL line then skip_empty_lines rest
        else if eof then None
        else Some (line, rest))"
  by pat_completeness auto
termination
  by (relation "measure length") (auto dest: readLine_progress [OF sym])

declare skip_empty_lines.simps [simp del]

text \<open>
  The loop \<^verbatim>\<open>parseField\<close> of \<^verbatim>\<open>readRecord\<close>. \<open>parseField line rest flds\<close> is at the
  start of a field, with \<open>line\<close> the unread part of the current line, \<open>rest\<close> the input
  after that line and \<open>flds\<close> the fields completed so far; \<open>parseQuoted\<close> is the inner
  loop of a quoted field, with \<open>buf\<close> what the field holds so far. The result is the
  completed fields and the error. The only error a \<^verbatim>\<open>strings.Reader\<close> gives is
  \<^verbatim>\<open>io.EOF\<close>, which the inner loop resets, so \<^verbatim>\<open>errRead\<close> is nil in both loops.
\<close>

function parseField :: "string \<Rightarrow> string \<Rightarrow> string list \<Rightarrow> string list \<times> csv_error option"
  and parseQuoted ::
    "string \<Rightarrow> string \<Rightarrow> string list \<Rightarrow> string \<Rightarrow> string list \<times> csv_error option" where
  "parseField line rest flds =
     (if length line = 0 \<or> hd line \<noteq> dquote then
        (case IndexByte line CHR '','' of
           Some i \<Rightarrow>
             (let field = take i line in
              if IndexByte field dquote \<noteq> None then (flds, Some ErrBareQuote)
              else parseField (drop (i + 1) line) rest (flds @ [field]))
         | None \<Rightarrow>
             (let field = take (length line - lengthNL line) line in
              if IndexByte field dquote \<noteq> None then (flds, Some ErrBareQuote)
              else (flds @ [field], None)))
      else parseQuoted (drop 1 line) rest flds [])"
| "parseQuoted line rest flds buf =
     (case IndexByte line dquote of
        Some i \<Rightarrow>
          (let buf = buf @ take i line;
               line = drop (i + 1) line
           in if line \<noteq> [] \<and> hd line = dquote
                then parseQuoted (drop 1 line) rest flds (buf @ [dquote])
              else if line \<noteq> [] \<and> hd line = CHR '',''
                then parseField (drop 1 line) rest (flds @ [buf])
              else if lengthNL line = length line then (flds @ [buf], None)
              else (flds, Some ErrQuote))
      | None \<Rightarrow>
          if length line > 0 then
            (case readLine rest of (line', rest', eof) \<Rightarrow>
               parseQuoted line' rest' flds (buf @ line))
          else (flds, Some ErrQuote))"
  by pat_completeness auto
termination
  by (relation "measure (\<lambda>x. case x of
          Inl (line, rest, flds) \<Rightarrow> length line + length rest
        | Inr (line, rest, flds, buf) \<Rightarrow> length line + length rest)")
     (auto dest: IndexByte_less intro: readLine_next_line)

declare parseField.simps [simp del] parseQuoted.simps [simp del]

text \<open>
  \<^verbatim>\<open>Read\<close>: the record as a slice, and the error. With no complete field the slice
  built from the nil destination stays nil.
\<close>

definition csv_Read :: "string \<Rightarrow> string slice \<times> csv_error option" where
  "csv_Read input =
     (case skip_empty_lines input of
        None \<Rightarrow> (NilSlice, Some EOF)
      | Some (line, rest) \<Rightarrow>
          (case parseField line rest [] of (flds, err) \<Rightarrow>
             (if flds = [] then NilSlice else Slice flds, err)))"

subsection \<open>\<^verbatim>\<open>StringSlice.Scan\<close>\<close>

text \<open>
  The argument is an \<^verbatim>\<open>interface{}\<close>: either a byte slice or a value of another dynamic
  type (nil among them). The receiver is a pointer: the model takes the slice it points
  to and returns the slice it points to afterwards, with the returned error.
\<close>

datatype src_value = Bytes string | NotBytes

datatype scan_error = ErrNotBytes | ErrCSV csv_error

definition StringSlice_Scan ::
    "string slice \<Rightarrow> src_value \<Rightarrow> (string slice \<times> scan_error option) outcome" where
  "StringSlice_Scan s src =
     (case src of
        NotBytes \<Rightarrow> Returns (s, Some ErrNotBytes)
      | Bytes asBytes \<Rightarrow>
          (let str = asBytes;
               str = quoteEscape_ReplaceAll str;
               str = strings_Replace str [bslash, bslash] [bslash]
           in case go_slice str 1 (int (length str) - 1) of
                Panics \<Rightarrow> Panics
              | Returns str \<Rightarrow>
                  (case csv_Read str of (slice, err) \<Rightarrow>
                     if err \<noteq> None \<and> err \<noteq> Some EOF then Returns (s, map_option ErrCSV err)
                     else Returns (slice, None))))"

subsection \<open>\<^verbatim>\<open>StringSlice.Value\<close>\<close>

text \<open>
  The receiver is a slice passed by value: the header is copied, the elements are
  shared with the caller. The loop assigns to \<^verbatim>\<open>s[i]\<close>, so the model returns the
  elements as the caller sees them after the call, next to the text. The returned
  error is always nil and is left out.
\<close>

definition Value_elem :: "string \<Rightarrow> string" where
  "Value_elem elem =
     [dquote]
       @ strings_Replace (strings_Replace elem [bslash] [bslash, bslash, bslash])
           [dquote] [bslash, dquote]
       @ [dquote]"

function Value_loop :: "string list \<Rightarrow> nat \<Rightarrow> string list" where
  "Value_loop s i =
     (if i < length s then Value_loop (s[i := Value_elem (s ! i)]) (i + 1) else s)"
  by pat_completeness auto
termination
  by (relation "measure (\<lambda>(s, i). length s - i)") auto

declare Value_loop.simps [simp del]

definition StringSlice_Value :: "string list \<Rightarrow> string list \<times> string" where
  "StringSlice_Value s =
     (let s = Value_loop s 0
      in (s, ''{'' @ strings_Join s '','' @ ''}''))"

subsection \<open>\<^verbatim>\<open>StringSlice.Last\<close>\<close>

definition StringSlice_Last :: "string list \<Rightarrow> string outcome" where
  "StringSlice_Last s =
     (if length s = 0 then Returns [] else go_index s (int (length s) - 1))"

subsection \<open>\<^verbatim>\<open>StructuredInput.String\<close>\<close>

text \<open>
  The method builds \<open>s\<close> by five guarded appends (\<open>String_lines\<close> is the value of
  \<open>s\<close> before the return statement) and returns \<^verbatim>\<open>s[:len(s)-1] + "\n"\<close>.
\<close>

definition String_lines :: "StructuredInput \<Rightarrow> string" where
  "String_lines si =
     (let s = [newline];
          s = (if length (Commands si) > 0
               then s @ ''Command: '' @ strings_Join (Commands si) '', '' @ [newline] else s);
          s = (if length (Actors si) > 0
               then s @ ''Actors: '' @ strings_Join (Actors si) '', '' @ [newline] else s);
          s = (if length (Objects si) > 0
               then s @ ''Objects: '' @ strings_Join (Objects si) '', '' @ [newline] else s);
          s = (if length (Times si) > 0
               then s @ ''Times: '' @ strings_Join (Times si) '', '' @ [newline] else s);
          s = (if length (Places si) > 0
               then s @ ''Places: '' @ strings_Join (Places si) '', '' @ [newline] else s)
      in s)"

definition StructuredInput_String :: "StructuredInput \<Rightarrow> string outcome" where
  "StructuredInput_String si =
     (let s = String_lines si
      in case go_slice s 0 (int (length s) - 1) of
           Panics \<Rightarrow> Panics
         | Returns t \<Rightarrow> Returns (t @ [newline]))"

subsection \<open>\<^verbatim>\<open>StructuredInput.Add\<close>\<close>

text \<open>
  The receiver is a pointer: the model takes the record and returns it updated, with the
  returned error (\<open>None\<close> is Go's nil error). The loop stops at the first class outside
  the switch; what it appended before stays. The call of the logger before that return
  writes to the log only and is not modelled.
\<close>

fun Add_loop :: "StructuredInput \<Rightarrow> WordClass list \<Rightarrow> StructuredInput \<times> error option" where
  "Add_loop si [] = (si, None)"
| "Add_loop si (w # ws) =
     (if Class w = CommandI then Add_loop (si\<lparr>Commands := Commands si @ [Word w]\<rparr>) ws
      else if Class w = ActorI then Add_loop (si\<lparr>Actors := Actors si @ [Word w]\<rparr>) ws
      else if Class w = ObjectI then Add_loop (si\<lparr>Objects := Objects si @ [Word w]\<rparr>) ws
      else if Class w = TimeI then Add_loop (si\<lparr>Times := Times si @ [Word w]\<rparr>) ws
      else if Class w = PlaceI then Add_loop (si\<lparr>Places := Places si @ [Word w]\<rparr>) ws
      else if Class w = NoneI then Add_loop si ws
      else (si, Some ErrInvalidClass))"

definition StructuredInput_Add ::
    "StructuredInput \<Rightarrow> WordClass list \<Rightarrow> StructuredInput \<times> error option" where
  "StructuredInput_Add si wc =
     (if length wc = 0 then (si, Some ErrInvalidOddParameter) else Add_loop si wc)"

subsection \<open>\<^verbatim>\<open>StructuredInput.Pronouns\<close>\<close>

text \<open>
  Four loops over Objects, Actors, Times and Places append to \<open>p\<close>, which starts as the
  non-nil empty slice \<^verbatim>\<open>[]string{}\<close>. The method assigns to nothing but \<open>p\<close>, so the
  model is a function of the receiver alone.
\<close>

fun Pronouns_loop :: "string slice \<Rightarrow> string list \<Rightarrow> string slice" where
  "Pronouns_loop p [] = p"
| "Pronouns_loop p (w # ws) =
     (if Pronouns_lookup w \<noteq> 0 then Pronouns_loop (append_slice p w) ws
      else Pronouns_loop p ws)"

definition StructuredInput_Pronouns :: "StructuredInput \<Rightarrow> string slice" where
  "StructuredInput_Pronouns si =
     (let p = Slice [];
          p = Pronouns_loop p (Objects si);
          p = Pronouns_loop p (Actors si);
          p = Pronouns_loop p (Times si);
          p = Pronouns_loop p (Places si)
      in p)"

section \<open>Notions of the specification\<close>

text \<open>The zero value of the struct: an input with nothing in it.\<close>

definition zero_StructuredInput :: StructuredInput where
  "zero_StructuredInput =
     \<lparr>UserId = 0, FlexId = [], FlexIdType = 0, Sentence = [], Commands = [], Actors = [],
      Objects = [], Times = [], Places = []\<rparr>"

text \<open>The six classes the ingestion knows; the sixth is the class to ignore.\<close>

definition recognized :: "int \<Rightarrow> bool" where
  "recognized c =
     (c = CommandI \<or> c = ActorI \<or> c = ObjectI \<or> c = TimeI \<or> c = PlaceI \<or> c = NoneI)"

text \<open>The words of a batch that carry the class \<open>c\<close>, in the order of the batch.\<close>

definition words_of :: "int \<Rightarrow> WordClass list \<Rightarrow> string list" where
  "words_of c wc = map Word (filter (\<lambda>w. Class w = c) wc)"

text \<open>
  The input after a batch is routed: every list gets the words of its own class at its
  end, and no other field changes.
\<close>

definition routed :: "StructuredInput \<Rightarrow> WordClass list \<Rightarrow> StructuredInput" where
  "routed si wc =
     si\<lparr>Commands := Commands si @ words_of CommandI wc,
        Actors := Actors si @ words_of ActorI wc,
        Objects := Objects si @ words_of ObjectI wc,
        Times := Times si @ words_of TimeI wc,
        Places := Places si @ words_of PlaceI wc\<rparr>"

text \<open>The fixed pronoun set of the specification.\<close>

definition pronoun_set :: "string set" where
  "pronoun_set = {''me'', ''us'', ''you'', ''him'', ''her'', ''them'', ''it'', ''that'',
                  ''there'', ''then''}"

text \<open>
  The rendering as the specification words it: after a leading newline, one line per
  non-empty category, in the order Command, Actors, Objects, Times, Places.
\<close>

definition category_line :: "string \<Rightarrow> string list \<Rightarrow> string" where
  "category_line label xs =
     (if xs = [] then [] else label @ '': '' @ strings_Join xs '', '' @ [newline])"

definition spec_Render :: "StructuredInput \<Rightarrow> string" where
  "spec_Render si =
     [newline] @ category_line ''Command'' (Commands si) @ category_line ''Actors'' (Actors si)
       @ category_line ''Objects'' (Objects si) @ category_line ''Times'' (Times si)
       @ category_line ''Places'' (Places si)"

definition ends_nl :: "string \<Rightarrow> bool" where
  "ends_nl c = (c = [] \<or> last c = newline)"

text \<open>
  An element is plain when it has no backslash, no double quote, no newline and no
  carriage return; commas and the empty string are plain.
\<close>

definition plain :: "string \<Rightarrow> bool" where
  "plain e = list_all (\<lambda>c. c \<noteq> bslash \<and> c \<noteq> dquote \<and> c \<noteq> newline \<and> c \<noteq> creturn) e"

text \<open>The elements between double quotes, with commas between them.\<close>

fun quoted_fields :: "string list \<Rightarrow> string" where
  "quoted_fields [] = []"
| "quoted_fields [e] = [dquote] @ e @ [dquote]"
| "quoted_fields (e # es) = [dquote] @ e @ [dquote] @ '','' @ quoted_fields es"

section \<open>The codec of string lists\<close>

lemma Value_loop_map:
  "i \<le> length s \<Longrightarrow> Value_loop s i = take i s @ map Value_elem (drop i s)"
proof (induction s i rule: Value_loop.induct)
  case (1 s i)
  show ?case
  proof (cases "i < length s")
    case True
    let ?s' = "s[i := Value_elem (s ! i)]"
    have "Value_loop s i = Value_loop ?s' (i + 1)"
      using True by (subst Value_loop.simps) simp
    also have "\<dots> = take (i + 1) ?s' @ map Value_elem (drop (i + 1) ?s')"
      using True by (intro "1.IH") auto
    also have "\<dots> = take i s @ map Value_elem (drop i s)"
      using True by (simp add: take_Suc_conv_app_nth Cons_nth_drop_Suc [symmetric])
    finally show ?thesis .
  next
    case False
    with "1.prems" show ?thesis by (subst Value_loop.simps) simp
  qed
qed

text \<open>
  What Value does on every list: each element is overwritten by its quoted and escaped
  form, and the text is the join of the overwritten elements between braces.
\<close>

lemma Value_map:
  "StringSlice_Value s =
     (map Value_elem s, ''{'' @ strings_Join (map Value_elem s) '','' @ ''}'')"
  by (simp add: StringSlice_Value_def Value_loop_map Let_def)

lemma strings_Replace_absent:
  "old \<noteq> [] \<Longrightarrow> hd old \<notin> set s \<Longrightarrow> strings_Replace s old new = s"
proof (induction s old new rule: strings_Replace.induct)
  case (1 s old new)
  show ?case
  proof (cases s)
    case Nil
    with "1.prems" show ?thesis by (subst strings_Replace.simps) simp
  next
    case (Cons c cs)
    have ne: "take (length old) s \<noteq> old"
    proof
      assume "take (length old) s = old"
      then have "hd old \<in> set s"
        using "1.prems"(1) by (metis hd_in_set in_set_takeD)
      with "1.prems"(2) show False by simp
    qed
    have "strings_Replace (tl s) old new = tl s"
      using "1.prems" Cons ne by (intro "1.IH"(2)) auto
    with "1.prems" Cons ne show ?thesis by (subst strings_Replace.simps) simp
  qed
qed

lemma quoteEscape_rest_absent: "bslash \<notin> set s \<Longrightarrow> quoteEscape_rest s = None"
  by (cases s rule: quoteEscape_rest.cases) auto

lemma quoteEscape_ReplaceAll_absent: "bslash \<notin> set s \<Longrightarrow> quoteEscape_ReplaceAll s = s"
  by (induction s) (simp_all add: quoteEscape_rest_absent)

lemma Value_elem_plain:
  assumes "plain e"
  shows "Value_elem e = [dquote] @ e @ [dquote]"
proof -
  have b: "bslash \<notin> set e" and q: "dquote \<notin> set e"
    using assms by (auto simp: plain_def list_all_iff)
  have "strings_Replace e [bslash] [bslash, bslash, bslash] = e"
    using b by (intro strings_Replace_absent) simp_all
  moreover have "strings_Replace e [dquote] [bslash, dquote] = e"
    using q by (intro strings_Replace_absent) simp_all
  ultimately show ?thesis
    by (simp add: Value_elem_def)
qed

lemma strings_Join_quoted:
  "list_all plain L \<Longrightarrow> strings_Join (map Value_elem L) '','' = quoted_fields L"
  by (induction L rule: quoted_fields.induct) (simp_all add: Value_elem_plain)

lemma quoted_fields_chars:
  "list_all plain L \<Longrightarrow> c \<in> set (quoted_fields L) \<Longrightarrow> c \<noteq> bslash \<and> c \<noteq> newline \<and> c \<noteq> creturn"
  by (induction L rule: quoted_fields.induct) (auto simp: plain_def list_all_iff)

lemma IndexByte_append:
  "c \<notin> set e \<Longrightarrow> IndexByte (e @ c # t) c = Some (length e)"
  by (induction e) auto

lemma parseQuoted_plain_last:
  "dquote \<notin> set e \<Longrightarrow> parseQuoted (e @ [dquote]) rest flds [] = (flds @ [e], None)"
  by (subst parseQuoted.simps) (simp add: IndexByte_append lengthNL_def Let_def)

lemma parseField_dquote:
  "parseField (dquote # line) rest flds = parseQuoted line rest flds []"
  by (subst parseField.simps) simp

lemma parseQuoted_plain_comma:
  "dquote \<notin> set e \<Longrightarrow>
   parseQuoted (e @ dquote # CHR '','' # line) rest flds [] = parseField line rest (flds @ [e])"
  by (subst parseQuoted.simps) (simp add: IndexByte_append Let_def)

lemma parseField_quoted:
  "list_all plain L \<Longrightarrow> L \<noteq> [] \<Longrightarrow> parseField (quoted_fields L) rest flds = (flds @ L, None)"
proof (induction L arbitrary: flds rule: quoted_fields.induct)
  case 1
  then show ?case by simp
next
  case (2 e)
  then have "dquote \<notin> set e" by (auto simp: plain_def list_all_iff)
  then show ?case
    by (simp add: parseField_dquote parseQuoted_plain_last)
next
  case (3 e e' es)
  from "3.prems" have nq: "dquote \<notin> set e" and pl: "list_all plain (e' # es)"
    by (auto simp: plain_def list_all_iff)
  have "parseField (quoted_fields (e # e' # es)) rest flds
        = parseQuoted (e @ dquote # CHR '','' # quoted_fields (e' # es)) rest flds []"
    by (simp add: parseField_dquote)
  also have "\<dots> = parseField (quoted_fields (e' # es)) rest (flds @ [e])"
    using nq by (rule parseQuoted_plain_comma)
  also have "\<dots> = ((flds @ [e]) @ e' # es, None)"
    using pl by (intro "3.IH") simp_all
  finally show ?case by simp
qed

lemma ReadSlice_one_line: "newline \<notin> set s \<Longrightarrow> ReadSlice s = (s, [], True)"
  by (induction s) auto

lemma readLine_one_line:
  assumes "s \<noteq> []" and "newline \<notin> set s" and "creturn \<notin> set s"
  shows "readLine s = (s, [], False)"
proof -
  have "last s \<noteq> creturn"
    using assms(1,3) last_in_set by metis
  moreover have "s ! (length s - 1) \<noteq> newline"
    using assms(1,2) by (metis diff_less length_greater_0_conv nth_mem zero_less_one)
  ultimately show ?thesis
    using assms(1) by (simp add: readLine_def ReadSlice_one_line [OF assms(2)] Let_def)
qed

lemma skip_empty_lines_one_line:
  assumes "s \<noteq> []" and "newline \<notin> set s" and "creturn \<notin> set s"
  shows "skip_empty_lines s = Some (s, [])"
proof -
  have "s ! (length s - 1) \<noteq> newline"
    using assms(1,2) by (metis diff_less length_greater_0_conv nth_mem zero_less_one)
  then have "lengthNL s = 0"
    by (simp add: lengthNL_def)
  then show ?thesis
    using assms(1) by (subst skip_empty_lines.simps) (simp add: readLine_one_line [OF assms])
qed

lemma quoted_fields_nonempty: "L \<noteq> [] \<Longrightarrow> quoted_fields L \<noteq> []"
  by (cases L rule: quoted_fields.cases) simp_all

lemma csv_Read_quoted:
  assumes "list_all plain L" and "L \<noteq> []"
  shows "csv_Read (quoted_fields L) = (Slice L, None)"
proof -
  have "newline \<notin> set (quoted_fields L)" and "creturn \<notin> set (quoted_fields L)"
    using quoted_fields_chars [OF assms(1)] by blast+
  then have "skip_empty_lines (quoted_fields L) = Some (quoted_fields L, [])"
    using quoted_fields_nonempty [OF assms(2)] by (intro skip_empty_lines_one_line)
  then show ?thesis
    using assms(2) by (simp add: csv_Read_def parseField_quoted [OF assms])
qed

lemma csv_Read_empty: "csv_Read [] = (NilSlice, Some EOF)"
  by code_simp

lemma go_slice_braces:
  "go_slice (''{'' @ t @ ''}'') 1 (int (length (''{'' @ t @ ''}'')) - 1) = Returns t"
  by (simp add: go_slice_def)

text \<open>
  Where the round trip holds: on every list of plain elements (the empty list, lists of
  one element, elements with commas and empty elements among them) Scan on the text of
  Value returns no error and sets the receiver to the list; for the empty list that is
  the nil slice.
\<close>

lemma roundtrip_plain:
  assumes "list_all plain L"
  shows "StringSlice_Scan s (Bytes (snd (StringSlice_Value L)))
           = Returns (if L = [] then NilSlice else Slice L, None)"
proof -
  let ?t = "''{'' @ quoted_fields L @ ''}''"
  have v: "snd (StringSlice_Value L) = ?t"
    by (simp add: Value_map strings_Join_quoted [OF assms])
  have nb: "bslash \<notin> set ?t"
    using quoted_fields_chars [OF assms] by auto
  have r1: "quoteEscape_ReplaceAll ?t = ?t"
    using nb by (rule quoteEscape_ReplaceAll_absent)
  have r2: "strings_Replace ?t [bslash, bslash] [bslash] = ?t"
    using nb by (intro strings_Replace_absent) simp_all
  have rd: "csv_Read (quoted_fields L) = (if L = [] then NilSlice else Slice L, if L = [] then Some EOF else None)"
    using csv_Read_quoted [OF assms] csv_Read_empty by simp
  show ?thesis
    unfolding v StringSlice_Scan_def
    by (simp only: src_value.case Let_def r1 r2 go_slice_braces outcome.case rd) simp
qed

text \<open>An instance: three plain elements, one with a comma and one empty.\<close>

lemma roundtrip_plain_example:
  "StringSlice_Scan NilSlice (Bytes (snd (StringSlice_Value [''a,b'', [], ''c''])))
     = Returns (Slice [''a,b'', [], ''c''], None)"
  using roundtrip_plain [of "[''a,b'', [], ''c'']" NilSlice] by (simp add: plain_def)

text \<open>
  C3. Value on the list without elements gives the two characters \<open>{}\<close> (and has no
  element to overwrite). Scan on the bytes \<open>{}\<close> returns no error and sets the receiver,
  whatever it was, to the slice the reader gave at the end of its input: the nil slice,
  which is Go's list of length 0.
\<close>

theorem empty_list_wire_form:
  "StringSlice_Value [] = ([], ''{}'')
   \<and> StringSlice_Scan s (Bytes ''{}'') = Returns (NilSlice, None)
   \<and> elems (NilSlice :: string slice) = []"
  by code_simp

text \<open>
  The steps of Scan on the text that Value gives for the list whose one element is a
  single backslash: the regular expression takes the three backslashes and the closing
  quote for an escaped backslash before an escaped quote, and the field that is left
  has no closing quote.
\<close>

lemma Scan_steps_on_backslash:
  "quoteEscape_ReplaceAll (''{'' @ [dquote, bslash, bslash, bslash, dquote] @ ''}'')
     = ''{'' @ [dquote, bslash, bslash, dquote, dquote] @ ''}''
   \<and> strings_Replace (''{'' @ [dquote, bslash, bslash, dquote, dquote] @ ''}'')
       [bslash, bslash] [bslash]
     = ''{'' @ [dquote, bslash, dquote, dquote] @ ''}''
   \<and> go_slice (''{'' @ [dquote, bslash, dquote, dquote] @ ''}'') 1 5
     = Returns [dquote, bslash, dquote, dquote]
   \<and> csv_Read [dquote, bslash, dquote, dquote] = (NilSlice, Some ErrQuote)"
  by code_simp

text \<open>
  C1, at inputs where the round trip fails. For the list whose one element is a single
  backslash, Value gives an opening brace, a quote, three backslashes, a quote and a
  closing brace, and Scan on these bytes returns a parse error and leaves the receiver
  as it was. For the list whose one element is an \<open>a\<close>, a backslash and a \<open>b\<close>, Scan
  succeeds with an element that has two backslashes between the letters. For the list
  whose one element is two double quotes, the regular expression rewrites the first
  escaped quote only (the second has no character of its own before it), and Scan
  returns a parse error.
\<close>

theorem roundtrip_fails_on_backslash:
  "StringSlice_Value [[bslash]]
     = ([[dquote, bslash, bslash, bslash, dquote]],
        ''{'' @ [dquote, bslash, bslash, bslash, dquote] @ ''}'')
   \<and> StringSlice_Scan s (Bytes (snd (StringSlice_Value [[bslash]])))
     = Returns (s, Some (ErrCSV ErrQuote))
   \<and> StringSlice_Scan s (Bytes (snd (StringSlice_Value [''a'' @ [bslash] @ ''b''])))
     = Returns (Slice [''a'' @ [bslash, bslash] @ ''b''], None)
   \<and> StringSlice_Scan s (Bytes (snd (StringSlice_Value [[dquote, dquote]])))
     = Returns (s, Some (ErrCSV ErrQuote))"
  by code_simp

text \<open>
  C2, at an input where it fails. After Value on the list of the one element \<open>a\<close> the
  element is \<open>a\<close> between quotes, and a second call on the same slice gives another
  text than the first.
\<close>

theorem Value_overwrites_its_elements:
  "StringSlice_Value [''a'']
     = ([[dquote] @ ''a'' @ [dquote]], ''{'' @ [dquote] @ ''a'' @ [dquote] @ ''}'')
   \<and> StringSlice_Value (fst (StringSlice_Value [''a'']))
     = ([[dquote, bslash, dquote] @ ''a'' @ [bslash, dquote, dquote]],
        ''{'' @ [dquote, bslash, dquote] @ ''a'' @ [bslash, dquote, dquote] @ ''}'')"
  by code_simp

text \<open>
  When Scan panics: exactly on bytes whose text, after the two replacements, is shorter
  than two characters.
\<close>

lemma Scan_Panics_iff:
  "StringSlice_Scan s src = Panics \<longleftrightarrow>
     (\<exists>b. src = Bytes b
        \<and> length (strings_Replace (quoteEscape_ReplaceAll b) [bslash, bslash] [bslash]) < 2)"
  by (cases src)
     (auto simp: StringSlice_Scan_def Let_def go_slice_def
           split: outcome.splits prod.splits if_splits)

text \<open>
  C9, at inputs where it fails. On the empty byte sequence, on a single brace and on
  two backslashes (one character after the replacements) the slice expression
  \<^verbatim>\<open>str[1 : len(str)-1]\<close> is out of range and Scan panics: it neither sets the receiver
  nor returns an error.
\<close>

theorem Scan_panics_on_short_input:
  "StringSlice_Scan s (Bytes []) = Panics
   \<and> StringSlice_Scan s (Bytes ''{'') = Panics
   \<and> StringSlice_Scan s (Bytes [bslash, bslash]) = Panics"
  by code_simp


section \<open>Ingestion\<close>

lemmas class_defs = CommandI_def ActorI_def ObjectI_def TimeI_def PlaceI_def NoneI_def

lemma routed_Nil: "routed si [] = si"
  by (simp add: routed_def words_of_def)

lemma Add_loop_recognized:
  "list_all (\<lambda>w. recognized (Class w)) wc \<Longrightarrow> Add_loop si wc = (routed si wc, None)"
proof (induction wc arbitrary: si)
  case Nil
  show ?case by (simp add: routed_Nil)
next
  case (Cons w ws)
  then show ?case
    by (auto simp: routed_def words_of_def recognized_def class_defs)
qed

lemma Add_loop_stop:
  "list_all (\<lambda>w. recognized (Class w)) pre \<Longrightarrow> \<not> recognized (Class bad) \<Longrightarrow>
   Add_loop si (pre @ bad # post) = (routed si pre, Some ErrInvalidClass)"
proof (induction pre arbitrary: si)
  case Nil
  then show ?case by (simp add: routed_Nil recognized_def)
next
  case (Cons w ws)
  then show ?case
    by (auto simp: routed_def words_of_def recognized_def class_defs)
qed

text \<open>
  C4. A batch that is not empty and holds recognized classes only is accepted (no
  error), and afterwards every one of the five lists is what it was followed by the
  words of its own class, in the order of the batch and with repetitions; words of the
  class to ignore go nowhere, and no other field changes.
\<close>

theorem Add_routes_by_class:
  assumes "wc \<noteq> []" and "list_all (\<lambda>w. recognized (Class w)) wc"
  shows "StructuredInput_Add si wc = (routed si wc, None)"
  using assms by (simp add: StructuredInput_Add_def Add_loop_recognized)

text \<open>The batch of the specification, on the empty input.\<close>

theorem Add_routes_by_class_witness:
  "StructuredInput_Add zero_StructuredInput
     [\<lparr>Word = ''go'', Class = CommandI\<rparr>, \<lparr>Word = ''him'', Class = ActorI\<rparr>,
      \<lparr>Word = ''car'', Class = ObjectI\<rparr>, \<lparr>Word = ''noon'', Class = TimeI\<rparr>,
      \<lparr>Word = ''park'', Class = PlaceI\<rparr>, \<lparr>Word = ''ignored'', Class = NoneI\<rparr>]
   = (zero_StructuredInput\<lparr>Commands := [''go''], Actors := [''him''], Objects := [''car''],
        Times := [''noon''], Places := [''park'']\<rparr>, None)"
  using Add_routes_by_class [of
     "[\<lparr>Word = ''go'', Class = CommandI\<rparr>, \<lparr>Word = ''him'', Class = ActorI\<rparr>,
      \<lparr>Word = ''car'', Class = ObjectI\<rparr>, \<lparr>Word = ''noon'', Class = TimeI\<rparr>,
      \<lparr>Word = ''park'', Class = PlaceI\<rparr>, \<lparr>Word = ''ignored'', Class = NoneI\<rparr>]"
     zero_StructuredInput]
  by (simp add: routed_def words_of_def recognized_def class_defs zero_StructuredInput_def)

text \<open>
  C5. On the empty batch, Add returns the error \<^verbatim>\<open>ErrInvalidOddParameter\<close> (the
  invalid-argument error of the specification) and the receiver is what it was, in all
  its fields.
\<close>

theorem Add_empty_batch:
  "StructuredInput_Add si [] = (si, Some ErrInvalidOddParameter)"
  by (simp add: StructuredInput_Add_def)

text \<open>
  C6. When the first pair with an unrecognized class comes after the pairs \<open>pre\<close>, Add
  returns \<^verbatim>\<open>ErrInvalidClass\<close>; the receiver holds the appends of \<open>pre\<close> and nothing of
  the pairs \<open>post\<close> after the failing one.
\<close>

theorem Add_fails_fast_without_rollback:
  assumes "list_all (\<lambda>w. recognized (Class w)) pre" and "\<not> recognized (Class bad)"
  shows "StructuredInput_Add si (pre @ bad # post) = (routed si pre, Some ErrInvalidClass)"
  using assms by (simp add: StructuredInput_Add_def Add_loop_stop)

text \<open>
  The batch of the specification, with 99 for the class that does not exist, and a
  further pair after it that is never reached.
\<close>

theorem Add_fails_fast_without_rollback_witness:
  "StructuredInput_Add zero_StructuredInput
     [\<lparr>Word = ''foo'', Class = CommandI\<rparr>, \<lparr>Word = ''bar'', Class = 99\<rparr>]
   = (zero_StructuredInput\<lparr>Commands := [''foo'']\<rparr>, Some ErrInvalidClass)
   \<and> StructuredInput_Add zero_StructuredInput
     [\<lparr>Word = ''foo'', Class = CommandI\<rparr>, \<lparr>Word = ''bar'', Class = 99\<rparr>,
      \<lparr>Word = ''baz'', Class = ActorI\<rparr>]
   = (zero_StructuredInput\<lparr>Commands := [''foo'']\<rparr>, Some ErrInvalidClass)"
  using Add_fails_fast_without_rollback [of "[\<lparr>Word = ''foo'', Class = CommandI\<rparr>]"
      "\<lparr>Word = ''bar'', Class = 99\<rparr>" zero_StructuredInput "[]"]
    Add_fails_fast_without_rollback [of "[\<lparr>Word = ''foo'', Class = CommandI\<rparr>]"
      "\<lparr>Word = ''bar'', Class = 99\<rparr>" zero_StructuredInput "[\<lparr>Word = ''baz'', Class = ActorI\<rparr>]"]
  by (simp add: routed_def words_of_def recognized_def class_defs zero_StructuredInput_def)

section \<open>Pronoun extraction\<close>

lemma Pronouns_lookup_iff: "Pronouns_lookup w \<noteq> 0 \<longleftrightarrow> w \<in> pronoun_set"
  by (auto simp: Pronouns_lookup_def Pronouns_def pronoun_set_def class_defs)

lemma Pronouns_loop_Slice:
  "Pronouns_loop (Slice xs) ws = Slice (xs @ filter (\<lambda>w. w \<in> pronoun_set) ws)"
  by (induction ws arbitrary: xs) (simp_all add: Pronouns_lookup_iff)

lemma Pronouns_filter:
  "StructuredInput_Pronouns si =
     Slice (filter (\<lambda>w. w \<in> pronoun_set) (Objects si @ Actors si @ Times si @ Places si))"
  by (simp add: StructuredInput_Pronouns_def Pronouns_loop_Slice)

text \<open>
  C7. Pronouns returns a slice that is not nil and holds exactly the members of the
  pronoun set among Objects, then Actors, then Times, then Places, in that order;
  Commands is not read. The result depends on the receiver alone (the model has no
  other argument and returns no new receiver, as the method assigns to none of its
  fields), so a second call gives the same. On the input of the specification the
  result is it, me, then, there.
\<close>

theorem Pronouns_extraction:
  "StructuredInput_Pronouns si =
     Slice (filter (\<lambda>w. w \<in> pronoun_set) (Objects si @ Actors si @ Times si @ Places si))
   \<and> StructuredInput_Pronouns si \<noteq> NilSlice
   \<and> StructuredInput_Pronouns
       (zero_StructuredInput\<lparr>Objects := [''it'', ''car''], Actors := [''me'', ''dog''],
          Times := [''then''], Places := [''there'']\<rparr>)
     = Slice [''it'', ''me'', ''then'', ''there'']"
  by (simp add: Pronouns_filter pronoun_set_def zero_StructuredInput_def)

section \<open>Rendering\<close>

lemma String_lines_eq: "String_lines si = spec_Render si"
  by (simp add: String_lines_def spec_Render_def category_line_def)

lemma ends_nl_append: "ends_nl a \<Longrightarrow> ends_nl b \<Longrightarrow> ends_nl (a @ b)"
  by (auto simp: ends_nl_def last_append)

lemma ends_nl_category_line: "ends_nl (category_line l xs)"
  by (simp add: ends_nl_def category_line_def)

lemma spec_Render_last: "spec_Render si \<noteq> [] \<and> last (spec_Render si) = newline"
proof -
  have "ends_nl (category_line ''Command'' (Commands si) @ category_line ''Actors'' (Actors si)
       @ category_line ''Objects'' (Objects si) @ category_line ''Times'' (Times si)
       @ category_line ''Places'' (Places si))" (is "ends_nl ?r")
    by (intro ends_nl_append ends_nl_category_line)
  moreover have "spec_Render si = [newline] @ ?r"
    by (simp only: spec_Render_def)
  ultimately show ?thesis
    by (simp only: ends_nl_def last_append) auto
qed

lemma go_slice_butlast:
  "s \<noteq> [] \<Longrightarrow> go_slice s 0 (int (length s) - 1) = Returns (butlast s)"
  by (simp add: go_slice_def butlast_conv_take nat_diff_distrib')

lemma String_spec_Render: "StructuredInput_String si = Returns (spec_Render si)"
proof -
  have ne: "spec_Render si \<noteq> []" and l: "last (spec_Render si) = newline"
    using spec_Render_last by blast+
  have "butlast (spec_Render si) @ [newline] = spec_Render si"
    using ne l by (metis append_butlast_last_id)
  with ne show ?thesis
    by (simp add: StructuredInput_String_def String_lines_eq go_slice_butlast)
qed

text \<open>
  C8. String never panics and returns a newline followed by one line
  \<open>label: elements\<close> (the elements joined by a comma and a space) for each list that is
  not empty, in the order Command, Actors, Objects, Times, Places; an empty list gives
  no line. With \<open>me\<close> in Actors and nothing else, the text is a newline, \<open>Actors: me\<close>
  and a newline.
\<close>

theorem String_renders_nonempty_categories:
  "StructuredInput_String si = Returns (spec_Render si)
   \<and> StructuredInput_String (zero_StructuredInput\<lparr>Actors := [''me'']\<rparr>)
     = Returns ([newline] @ ''Actors: me'' @ [newline])"
  by (simp add: String_spec_Render spec_Render_def category_line_def zero_StructuredInput_def)

section \<open>The last element\<close>

text \<open>
  C10. Last never panics: it returns the empty string on a list without elements and
  the final element otherwise.
\<close>

theorem Last_total:
  "StringSlice_Last s = Returns (if s = [] then [] else last s)"
  by (cases s rule: rev_cases) (simp_all add: StringSlice_Last_def go_index_def)

end
